theory Spec2Isabelle
  imports Complex_Main "HOL-Library.Multiset"
begin

section \<open>Python values, errors and library functions\<close>

text \<open>
  The commentary pipeline is Python. Every place where the source can raise is a branch of
  the model: a function that can raise returns \<open>error + 'a\<close>, with \<open>Inl\<close> the exception.
  A dictionary key that may be absent is an \<open>option\<close> field (\<open>None\<close>: the key is not in the
  dictionary), so that \<open>d['k']\<close> on an absent key is \<open>Inl KeyError\<close> and \<open>d.get('k', v)\<close>
  is a \<open>case\<close> with the default. Python floats are idealised as \<open>real\<close>.
\<close>

datatype error =
    KeyError
  | IndexError
  | ValueError
  | ZeroDivisionError
  | TypeError
  | AttributeError
  | ValidationError string

text \<open>\<open>str.lower\<close> on ASCII letters; every other character is kept.\<close>

definition lower_char :: "char \<Rightarrow> char" where
  "lower_char c =
     (case map_of (zip ''ABCDEFGHIJKLMNOPQRSTUVWXYZ'' ''abcdefghijklmnopqrstuvwxyz'') c of
        Some l \<Rightarrow> l
      | None \<Rightarrow> c)"

definition lower :: "string \<Rightarrow> string" where
  "lower s = map lower_char s"

text \<open>\<open>sub in s\<close> on strings: \<open>sub\<close> occurs in \<open>s\<close> as a contiguous run.\<close>

fun contains :: "string \<Rightarrow> string \<Rightarrow> bool" where
  "contains sub [] = (sub = [])"
| "contains sub (c # cs) = (take (length sub) (c # cs) = sub \<or> contains sub cs)"

text \<open>
  \<open>round(x, nd)\<close>: to \<open>nd\<close> decimals, a tie going to the even neighbour (on the exact
  value; the binary representation of a float is not modelled).
\<close>

definition round_half_even :: "real \<Rightarrow> int" where
  "round_half_even x =
     (let f = \<lfloor>x\<rfloor>; d = x - of_int f in
      if d < 1 / 2 then f
      else if 1 / 2 < d then f + 1
      else if even f then f else f + 1)"

definition py_round :: "real \<Rightarrow> nat \<Rightarrow> real" where
  "py_round x nd = of_int (round_half_even (x * 10 ^ nd)) / 10 ^ nd"

text \<open>
  \<open>sorted(xs, key=k, reverse=True)\<close>: Python's sort is stable, also with \<open>reverse=True\<close>
  (elements with equal keys keep their original order). The result of a stable sort is
  unique, so it is computed here by insertion from the right: an element goes in front of
  the first element whose key is not larger than its own.
\<close>

fun insert_desc :: "('a \<Rightarrow> real) \<Rightarrow> 'a \<Rightarrow> 'a list \<Rightarrow> 'a list" where
  "insert_desc k x [] = [x]"
| "insert_desc k x (y # ys) = (if k y \<le> k x then x # y # ys else y # insert_desc k x ys)"

text \<open>\<open>s.split(sep)\<close> for a one-character separator: never the empty list.\<close>

fun split :: "char \<Rightarrow> string \<Rightarrow> string list" where
  "split sep [] = [[]]"
| "split sep (c # cs) =
     (if c = sep then [] # split sep cs
      else (case split sep cs of
              [] \<Rightarrow> [[c]]
            | p # ps \<Rightarrow> (c # p) # ps))"

definition digit_value :: "char \<Rightarrow> nat option" where
  "digit_value c = map_of (zip ''0123456789'' [0, 1, 2, 3, 4, 5, 6, 7, 8, 9]) c"

text \<open>\<open>s.isdigit()\<close> on ASCII: the string is not empty and every character is a digit.\<close>

definition isdigit :: "string \<Rightarrow> bool" where
  "isdigit s = (s \<noteq> [] \<and> list_all (\<lambda>c. digit_value c \<noteq> None) s)"

definition decimal_value :: "string \<Rightarrow> nat" where
  "decimal_value s = foldl (\<lambda>acc c. 10 * acc + (case digit_value c of Some d \<Rightarrow> d | None \<Rightarrow> 0)) 0 s"

text \<open>
  \<open>int(s)\<close> on an ASCII string: surrounding whitespace (space, tab, line feed,
  vertical tab, form feed, carriage return) is dropped, one sign is allowed,
  and the digits may be grouped by single underscores. Anything else is a ValueError.
\<close>

definition is_space :: "char \<Rightarrow> bool" where
  "is_space c = (c \<in> set [CHR '' '', CHR 0x09, CHR 0x0A, CHR 0x0B, CHR 0x0C, CHR 0x0D])"

definition strip :: "string \<Rightarrow> string" where
  "strip s = rev (dropWhile is_space (rev (dropWhile is_space s)))"

definition int_body_ok :: "string \<Rightarrow> bool" where
  "int_body_ok b =
     (b \<noteq> [] \<and> digit_value (hd b) \<noteq> None \<and> digit_value (last b) \<noteq> None
      \<and> list_all (\<lambda>c. digit_value c \<noteq> None \<or> c = CHR ''_'') b
      \<and> \<not> contains ''__'' b)"

definition py_int :: "string \<Rightarrow> error + int" where
  "py_int s =
     (let t = strip s;
          neg = (t \<noteq> [] \<and> hd t = CHR ''-'');
          b = (if t \<noteq> [] \<and> (hd t = CHR ''-'' \<or> hd t = CHR ''+'') then tl t else t)
      in if int_body_ok b
         then Inr ((if neg then - 1 else 1) * int (decimal_value (filter (\<lambda>c. c \<noteq> CHR ''_'') b)))
         else Inl ValueError)"

text \<open>\<open>str(n)\<close> for an integer.\<close>

fun str_nat :: "nat \<Rightarrow> string" where
  "str_nat n =
     (if n < 10 then [''0123456789'' ! n]
      else str_nat (n div 10) @ [''0123456789'' ! (n mod 10)])"

definition str_int :: "int \<Rightarrow> string" where
  "str_int i = (if i < 0 then CHR ''-'' # str_nat (nat (- i)) else str_nat (nat i))"

text \<open>\<open>s[:n]\<close>: a negative \<open>n\<close> counts from the end.\<close>

definition slice_to :: "string \<Rightarrow> int \<Rightarrow> string" where
  "slice_to s n = (if 0 \<le> n then take (nat n) s else take (length s - nat (- n)) s)"

text \<open>
  \<open>max(xs, key=k)\<close> on a non-empty sequence \<open>x # xs\<close>: the first element with the
  largest key.
\<close>

fun first_max :: "('a \<Rightarrow> real) \<Rightarrow> 'a \<Rightarrow> 'a list \<Rightarrow> 'a" where
  "first_max k best [] = best"
| "first_max k best (x # xs) = (if k best < k x then first_max k x xs else first_max k best xs)"

text \<open>
  \<open>pattern.format(**context)\<close> for patterns whose replacement fields are plain names
  \<open>{name}\<close> (the catalogue has no other): the second argument is the name being read
  inside braces, if any. A name that is not in the context is a KeyError, an unmatched
  brace a ValueError. Doubled braces, conversions and format specifications are not
  modelled.
\<close>

fun format_fields :: "(string \<times> string) list \<Rightarrow> string option \<Rightarrow> string \<Rightarrow> error + string" where
  "format_fields ctx None [] = Inr []"
| "format_fields ctx (Some name) [] = Inl ValueError"
| "format_fields ctx None (c # cs) =
     (if c = CHR ''{'' then format_fields ctx (Some []) cs
      else if c = CHR ''}'' then Inl ValueError
      else (case format_fields ctx None cs of
              Inl e \<Rightarrow> Inl e
            | Inr r \<Rightarrow> Inr (c # r)))"
| "format_fields ctx (Some name) (c # cs) =
     (if c = CHR ''}'' then
        (case map_of ctx name of
           None \<Rightarrow> Inl KeyError
         | Some v \<Rightarrow>
            (case format_fields ctx None cs of
               Inl e \<Rightarrow> Inl e
             | Inr r \<Rightarrow> Inr (v @ r)))
      else format_fields ctx (Some (name @ [c])) cs)"

definition sorted_reverse :: "('a \<Rightarrow> real) \<Rightarrow> 'a list \<Rightarrow> 'a list" where
  "sorted_reverse k xs = foldr (insert_desc k) xs []"


section \<open>The game analyzer (src/commentary/analyzer.py)\<close>

subsection \<open>Data\<close>

text \<open>An entry of \<open>recent_events\<close>: a dictionary read at five keys.\<close>

record game_event =
  ev_timestamp :: "string option"
  ev_type :: "string option"
  ev_description :: "string option"
  ev_teams :: "string list option"
  ev_time_remaining :: "real option"

text \<open>The dataclass \<open>GameMoment\<close>.\<close>

record game_moment =
  timestamp :: string
  event_type :: string
  importance :: real
  description :: string
  teams_involved :: "string list"
  score_change :: bool
  momentum_shift :: bool

text \<open>An entry of \<open>recent_scores\<close>: a dictionary read at the key \<open>team\<close>.\<close>

record scoring_play =
  team :: "string option"

text \<open>
  The statistics dictionary \<open>stats\<close>. The keys the analyzer reads by name are fields; the
  per-team counters are read under computed keys (\<open>f'{team}_attempts'\<close>) and are kept
  as the association list \<open>counters\<close>; \<open>other_keys\<close> are the keys the analyzer never reads
  (they only matter for the truth value of the dictionary).
\<close>

record stats =
  recent_events :: "game_event list option"
  recent_scores :: "scoring_play list option"
  home_team :: "string option"
  away_team :: "string option"
  possession :: "string option"
  home_score :: "int option"
  away_score :: "int option"
  game_time :: "string option"
  counters :: "(string \<times> real) list"
  other_keys :: "string list"

definition empty_stats :: stats where
  "empty_stats =
     \<lparr>recent_events = None, recent_scores = None, home_team = None, away_team = None,
      possession = None, home_score = None, away_score = None, game_time = None,
      counters = [], other_keys = []\<rparr>"

text \<open>The analyzer object: \<open>previous_stats\<close> is its only field that is ever assigned.\<close>

record analyzer =
  previous_stats :: "stats option"

definition momentum_threshold :: real where
  "momentum_threshold = 0.6"

definition significant_events :: "(string \<times> real) list" where
  "significant_events =
     [(''score_change'', 0.8), (''possession_change'', 0.4), (''timeout'', 0.5),
      (''injury'', 0.7), (''penalty'', 0.6)]"

subsection \<open>Event importance and key moments\<close>

definition calculate_event_importance :: "game_event \<Rightarrow> error + real" where
  "calculate_event_importance event =
     (case ev_type event of
        None \<Rightarrow> Inl KeyError
      | Some ty \<Rightarrow>
          let base_importance =
                (case map_of significant_events (lower ty) of Some w \<Rightarrow> w | None \<Rightarrow> 0.3);
              base_importance =
                (case ev_time_remaining event of
                   None \<Rightarrow> base_importance
                 | Some tr \<Rightarrow>
                     let time_factor = min 1.0 (1.5 - tr / 3600)
                     in base_importance * (1 + time_factor))
          in Inr (min 1.0 base_importance))"

text \<open>The \<open>GameMoment(...)\<close> call: its arguments are evaluated in the order written.\<close>

definition make_moment :: "game_event \<Rightarrow> real \<Rightarrow> error + game_moment" where
  "make_moment event imp =
     (case ev_timestamp event of
        None \<Rightarrow> Inl KeyError
      | Some ts \<Rightarrow>
         (case ev_type event of
            None \<Rightarrow> Inl KeyError
          | Some ty \<Rightarrow>
             (case ev_description event of
                None \<Rightarrow> Inl KeyError
              | Some d \<Rightarrow>
                 (case ev_teams event of
                    None \<Rightarrow> Inl KeyError
                  | Some tms \<Rightarrow>
                      Inr \<lparr>timestamp = ts, event_type = ty, importance = imp,
                           description = d, teams_involved = tms,
                           score_change = contains ''score'' (lower ty),
                           momentum_shift = (0.7 < imp)\<rparr>))))"

text \<open>The loop of \<open>_identify_key_moments\<close>, with the list \<open>key_moments\<close> it appends to.\<close>

fun collect_key_moments :: "game_event list \<Rightarrow> game_moment list \<Rightarrow> error + game_moment list" where
  "collect_key_moments [] key_moments = Inr key_moments"
| "collect_key_moments (event # rest) key_moments =
     (case calculate_event_importance event of
        Inl e \<Rightarrow> Inl e
      | Inr imp \<Rightarrow>
          if momentum_threshold \<le> imp then
            (case make_moment event imp of
               Inl e \<Rightarrow> Inl e
             | Inr m \<Rightarrow> collect_key_moments rest (key_moments @ [m]))
          else collect_key_moments rest key_moments)"

definition identify_key_moments :: "stats \<Rightarrow> error + game_moment list" where
  "identify_key_moments st =
     (case collect_key_moments (case recent_events st of None \<Rightarrow> [] | Some evs \<Rightarrow> evs) [] of
        Inl e \<Rightarrow> Inl e
      | Inr key_moments \<Rightarrow> Inr (sorted_reverse importance key_moments))"

subsection \<open>Momentum\<close>

text \<open>
  The loop over \<open>recent_scores\<close>, carrying \<open>(home_momentum, away_momentum)\<close>. The
  comparison reads \<open>score['team']\<close> first and \<open>stats['home_team']\<close> second.
\<close>

fun scoring_trend :: "stats \<Rightarrow> scoring_play list \<Rightarrow> real \<times> real \<Rightarrow> error + real \<times> real" where
  "scoring_trend st [] hm_am = Inr hm_am"
| "scoring_trend st (score # rest) (home_momentum, away_momentum) =
     (case team score of
        None \<Rightarrow> Inl KeyError
      | Some t \<Rightarrow>
         (case home_team st of
            None \<Rightarrow> Inl KeyError
          | Some h \<Rightarrow>
              if t = h then scoring_trend st rest (home_momentum + 0.1, away_momentum - 0.1)
              else scoring_trend st rest (home_momentum - 0.1, away_momentum + 0.1)))"

definition possession_bonus :: "stats \<Rightarrow> real \<times> real \<Rightarrow> error + real \<times> real" where
  "possession_bonus st hm_am =
     (case possession st of
        None \<Rightarrow> Inr hm_am
      | Some p \<Rightarrow>
         (case home_team st of
            None \<Rightarrow> Inl KeyError
          | Some h \<Rightarrow>
              if p = h then Inr (fst hm_am + 0.05, snd hm_am)
              else Inr (fst hm_am, snd hm_am + 0.05)))"

text \<open>
  The returned dictionary is an association list in insertion order.
  \<open>not self.previous_stats\<close> holds when there is no previous dictionary or it is empty.
\<close>

definition calculate_momentum :: "analyzer \<Rightarrow> stats \<Rightarrow> error + (string \<times> real) list" where
  "calculate_momentum self st =
     (if previous_stats self = None \<or> previous_stats self = Some empty_stats
      then Inr [(''home'', 0.5), (''away'', 0.5)]
      else
        (case scoring_trend st (case recent_scores st of None \<Rightarrow> [] | Some ss \<Rightarrow> ss) (0.5, 0.5) of
           Inl e \<Rightarrow> Inl e
         | Inr hm_am \<Rightarrow>
            (case possession_bonus st hm_am of
               Inl e \<Rightarrow> Inl e
             | Inr (home_momentum, away_momentum) \<Rightarrow>
                 let total = home_momentum + away_momentum in
                 if total = 0 then Inl ZeroDivisionError
                 else Inr [(''home'', py_round (home_momentum / total) 2),
                           (''away'', py_round (away_momentum / total) 2)])))"

subsection \<open>Performance\<close>

text \<open>\<open>stats.get(key, default)\<close> on the counters.\<close>

definition get_counter :: "stats \<Rightarrow> string \<Rightarrow> real \<Rightarrow> real" where
  "get_counter st key dflt = (case map_of (counters st) key of Some v \<Rightarrow> v | None \<Rightarrow> dflt)"

definition calculate_efficiency :: "stats \<Rightarrow> string \<Rightarrow> error + real" where
  "calculate_efficiency st tm =
     (let attempts = get_counter st (tm @ ''_attempts'') 1;
          successes = get_counter st (tm @ ''_successes'') 0
      in if attempts = 0 then Inl ZeroDivisionError
         else Inr (py_round (successes / attempts) 3))"

definition calculate_pressure :: "stats \<Rightarrow> string \<Rightarrow> real" where
  "calculate_pressure st tm = min 1.0 (get_counter st (tm @ ''_pressure'') 0 / 100)"

definition calculate_defense :: "stats \<Rightarrow> string \<Rightarrow> real" where
  "calculate_defense st tm = min 1.0 (get_counter st (tm @ ''_defense'') 0 / 100)"

text \<open>The metrics of one team: the dictionary with keys efficiency, pressure, defense.\<close>

definition team_performance :: "stats \<Rightarrow> string \<Rightarrow> error + (string \<times> real) list" where
  "team_performance st tm =
     (case calculate_efficiency st tm of
        Inl e \<Rightarrow> Inl e
      | Inr eff \<Rightarrow>
          Inr [(''efficiency'', eff), (''pressure'', calculate_pressure st tm),
               (''defense'', calculate_defense st tm)])"

definition analyze_performance :: "stats \<Rightarrow> error + (string \<times> (string \<times> real) list) list" where
  "analyze_performance st =
     (case team_performance st ''home'' of
        Inl e \<Rightarrow> Inl e
      | Inr h \<Rightarrow>
         (case team_performance st ''away'' of
            Inl e \<Rightarrow> Inl e
          | Inr a \<Rightarrow> Inr [(''home'', h), (''away'', a)]))"

subsection \<open>Game situation\<close>

definition parse_time_remaining :: "string \<Rightarrow> error + int" where
  "parse_time_remaining time_str =
     (let parts = split CHR '':'' time_str in
      case py_int (parts ! 0) of
        Inl e \<Rightarrow> Inl e
      | Inr minutes \<Rightarrow>
          if length parts < 2 then Inl IndexError
          else (case py_int (parts ! 1) of
                  Inl e \<Rightarrow> Inl e
                | Inr seconds \<Rightarrow> Inr (minutes * 60 + seconds)))"

record situation =
  criticality :: real
  phase :: string
  situation_context :: string

text \<open>
  \<open>_assess_game_situation\<close> calls three methods that the class does not define; they
  are parameters of the model, each free to return or to raise.
\<close>

record analyzer_methods =
  calculate_criticality :: "int \<Rightarrow> int \<Rightarrow> error + real"
  determine_game_phase :: "int \<Rightarrow> error + string"
  generate_situation_context :: "stats \<Rightarrow> error + string"

text \<open>The class as it is in the source: looking up an undefined method raises.\<close>

definition undefined_analyzer_methods :: analyzer_methods where
  "undefined_analyzer_methods =
     \<lparr>calculate_criticality = (\<lambda>_ _. Inl AttributeError),
      determine_game_phase = (\<lambda>_. Inl AttributeError),
      generate_situation_context = (\<lambda>_. Inl AttributeError)\<rparr>"

definition score_difference :: "stats \<Rightarrow> error + int" where
  "score_difference st =
     (case home_score st of
        None \<Rightarrow> Inl KeyError
      | Some h \<Rightarrow>
         (case away_score st of
            None \<Rightarrow> Inl KeyError
          | Some a \<Rightarrow> Inr (abs (h - a))))"

definition situation_of :: "analyzer_methods \<Rightarrow> stats \<Rightarrow> int \<Rightarrow> int \<Rightarrow> error + situation" where
  "situation_of ms st time_remaining diff =
     (case calculate_criticality ms time_remaining diff of
        Inl e \<Rightarrow> Inl e
      | Inr c \<Rightarrow>
         (case determine_game_phase ms time_remaining of
            Inl e \<Rightarrow> Inl e
          | Inr p \<Rightarrow>
             (case generate_situation_context ms st of
                Inl e \<Rightarrow> Inl e
              | Inr x \<Rightarrow> Inr \<lparr>criticality = c, phase = p, situation_context = x\<rparr>)))"

definition assess_game_situation :: "analyzer_methods \<Rightarrow> stats \<Rightarrow> error + situation" where
  "assess_game_situation ms st =
     (case game_time st of
        None \<Rightarrow> Inl KeyError
      | Some gt \<Rightarrow>
         (case parse_time_remaining gt of
            Inl e \<Rightarrow> Inl e
          | Inr time_remaining \<Rightarrow>
             (case score_difference st of
                Inl e \<Rightarrow> Inl e
              | Inr diff \<Rightarrow> situation_of ms st time_remaining diff)))"

subsection \<open>The analysis\<close>

text \<open>
  The analysis dictionary, with the keys the analyzer writes and the further keys the
  generator reads; \<open>None\<close> is a key that is not in the dictionary.
\<close>

record analysis =
  key_moments :: "game_moment list option"
  momentum :: "(string \<times> real) list option"
  performance_metrics :: "(string \<times> (string \<times> real) list) list option"
  game_situation :: "situation option"
  an_home_score :: "int option"
  an_away_score :: "int option"
  an_home_team :: "string option"
  an_away_team :: "string option"

definition analysis_keys :: "analysis \<Rightarrow> string list" where
  "analysis_keys a =
     (if key_moments a = None then [] else [''key_moments'']) @
     (if momentum a = None then [] else [''momentum'']) @
     (if performance_metrics a = None then [] else [''performance_metrics'']) @
     (if game_situation a = None then [] else [''game_situation'']) @
     (if an_home_score a = None then [] else [''home_score'']) @
     (if an_away_score a = None then [] else [''away_score'']) @
     (if an_home_team a = None then [] else [''home_team'']) @
     (if an_away_team a = None then [] else [''away_team''])"

text \<open>The dictionary literal of \<open>analyze_game_state\<close>, its values computed in order.\<close>

definition build_analysis :: "analyzer_methods \<Rightarrow> analyzer \<Rightarrow> stats \<Rightarrow> error + analysis" where
  "build_analysis ms self current_stats =
     (case identify_key_moments current_stats of
        Inl e \<Rightarrow> Inl e
      | Inr km \<Rightarrow>
         (case calculate_momentum self current_stats of
            Inl e \<Rightarrow> Inl e
          | Inr mo \<Rightarrow>
             (case analyze_performance current_stats of
                Inl e \<Rightarrow> Inl e
              | Inr pm \<Rightarrow>
                 (case assess_game_situation ms current_stats of
                    Inl e \<Rightarrow> Inl e
                  | Inr gs \<Rightarrow>
                      Inr \<lparr>key_moments = Some km, momentum = Some mo,
                           performance_metrics = Some pm, game_situation = Some gs,
                           an_home_score = None, an_away_score = None,
                           an_home_team = None, an_away_team = None\<rparr>))))"

text \<open>
  \<open>analyze_game_state\<close> returns the analysis or the exception, together with the
  analyzer object after the call: the assignment to \<open>previous_stats\<close> is reached only
  when the dictionary literal has been built.
\<close>

definition analyze_game_state ::
    "analyzer_methods \<Rightarrow> analyzer \<Rightarrow> stats \<Rightarrow> (error + analysis) \<times> analyzer" where
  "analyze_game_state ms self current_stats =
     (case build_analysis ms self current_stats of
        Inl e \<Rightarrow> (Inl e, self)
      | Inr a \<Rightarrow> (Inr a, self\<lparr>previous_stats := Some current_stats\<rparr>))"


section \<open>The commentary generator (src/commentary/generator.py)\<close>

subsection \<open>Data\<close>

record commentary_template =
  pattern :: string
  conditions :: "(string \<times> real) list"
  style :: string
  priority :: int

text \<open>The generator object; \<open>max_pattern_memory\<close> is set once and never assigned again.\<close>

record generator =
  templates :: "commentary_template list"
  last_used_patterns :: "string list"

definition max_pattern_memory :: nat where
  "max_pattern_memory = 5"

definition load_templates :: "commentary_template list" where
  "load_templates =
     [\<lparr>pattern = ''{team} {action} as they {momentum_description}'',
       conditions = [(''momentum'', 0.7)], style = ''neutral'', priority = 1\<rparr>,
      \<lparr>pattern = ''What a {intensity} performance by {team}! {key_stat}'',
       conditions = [(''performance'', 0.8)], style = ''excited'', priority = 2\<rparr>,
      \<lparr>pattern = ''Looking at the numbers, {team}'' @ [CHR 0x27] @ ''s {stat_type} shows {analysis}'',
       conditions = [(''efficiency'', 0.6)], style = ''analytical'', priority = 1\<rparr>]"

definition init_generator :: generator where
  "init_generator = \<lparr>templates = load_templates, last_used_patterns = []\<rparr>"

subsection \<open>Filtering and selection\<close>

definition efficiency_reaches :: "real \<Rightarrow> (string \<times> real) list \<Rightarrow> bool" where
  "efficiency_reaches threshold p =
     (threshold \<le> (case map_of p ''efficiency'' of Some v \<Rightarrow> v | None \<Rightarrow> 0))"

definition check_condition :: "analysis \<Rightarrow> string \<Rightarrow> real \<Rightarrow> error + bool" where
  "check_condition a condition threshold =
     (if condition = ''momentum'' then
        (case map snd (case momentum a of None \<Rightarrow> [] | Some m \<Rightarrow> m) of
           [] \<Rightarrow> Inl ValueError
         | v # vs \<Rightarrow> Inr (threshold \<le> first_max id v vs))
      else if condition = ''performance'' then
        Inr (list_ex (efficiency_reaches threshold)
               (map snd (case performance_metrics a of None \<Rightarrow> [] | Some pm \<Rightarrow> pm)))
      else if condition = ''efficiency'' then
        Inr (list_ex (efficiency_reaches threshold)
               (map snd (case performance_metrics a of None \<Rightarrow> [] | Some pm \<Rightarrow> pm)))
      else Inr False)"

text \<open>\<open>all(...)\<close> over the conditions of a template: it stops at the first that fails.\<close>

fun conditions_met :: "analysis \<Rightarrow> (string \<times> real) list \<Rightarrow> error + bool" where
  "conditions_met a [] = Inr True"
| "conditions_met a ((condition, threshold) # rest) =
     (case check_condition a condition threshold of
        Inl e \<Rightarrow> Inl e
      | Inr ok \<Rightarrow> if ok then conditions_met a rest else Inr False)"

text \<open>The loop of \<open>_filter_templates\<close> over the catalogue, against the pattern memory.\<close>

fun filter_loop :: "string list \<Rightarrow> analysis \<Rightarrow> string \<Rightarrow> commentary_template list
      \<Rightarrow> error + commentary_template list" where
  "filter_loop used a sty [] = Inr []"
| "filter_loop used a sty (t # ts) =
     (if style t \<noteq> sty then filter_loop used a sty ts
      else
        (case conditions_met a (conditions t) of
           Inl e \<Rightarrow> Inl e
         | Inr met \<Rightarrow>
            (case filter_loop used a sty ts of
               Inl e \<Rightarrow> Inl e
             | Inr relevant \<Rightarrow>
                 if met \<and> pattern t \<notin> set used then Inr (t # relevant) else Inr relevant)))"

definition filter_templates :: "generator \<Rightarrow> analysis \<Rightarrow> string \<Rightarrow> error + commentary_template list" where
  "filter_templates self a sty = filter_loop (last_used_patterns self) a sty (templates self)"

text \<open>
  \<open>_select_template\<close> draws one number from \<open>random.uniform(0.8, 1.2)\<close> for each
  candidate; \<open>draw i\<close> is the number drawn for the candidate at position \<open>i\<close>.
\<close>

definition weighted_templates :: "(nat \<Rightarrow> real) \<Rightarrow> commentary_template list
      \<Rightarrow> (commentary_template \<times> real) list" where
  "weighted_templates draw ts =
     map (\<lambda>(i, t). (t, real_of_int (priority t) * draw i)) (enumerate 0 ts)"

definition select_template :: "(nat \<Rightarrow> real) \<Rightarrow> commentary_template list \<Rightarrow> commentary_template option" where
  "select_template draw ts =
     (case weighted_templates draw ts of
        [] \<Rightarrow> None
      | w # ws \<Rightarrow> Some (fst (first_max snd w ws)))"

subsection \<open>Rendering\<close>

definition get_leading_team :: "analysis \<Rightarrow> string" where
  "get_leading_team a =
     (let home_score = (case an_home_score a of Some v \<Rightarrow> v | None \<Rightarrow> 0);
          away_score = (case an_away_score a of Some v \<Rightarrow> v | None \<Rightarrow> 0)
      in if away_score < home_score
           then (case an_home_team a of Some n \<Rightarrow> n | None \<Rightarrow> ''Home team'')
         else if home_score < away_score
           then (case an_away_team a of Some n \<Rightarrow> n | None \<Rightarrow> ''Away team'')
         else (case an_home_team a of Some n \<Rightarrow> n | None \<Rightarrow> ''Home team''))"

definition describe_momentum :: "(string \<times> real) list \<Rightarrow> error + string" where
  "describe_momentum m =
     (case m of
        [] \<Rightarrow> Inr ''continue to play''
      | item # items \<Rightarrow>
          let leading_team = fst (first_max snd item items) in
          (case map_of m leading_team of
             None \<Rightarrow> Inl KeyError
           | Some momentum_value \<Rightarrow>
               if 0.8 < momentum_value then Inr ''dominate the game''
               else if 0.6 < momentum_value then Inr ''maintain control''
               else Inr ''push forward''))"

text \<open>
  \<open>_fill_template\<close> calls five methods that the class does not define; they are
  parameters of the model, each free to return a string or to raise.
\<close>

record generator_methods =
  get_team_action :: "analysis \<Rightarrow> error + string"
  get_intensity_descriptor :: "(string \<times> (string \<times> real) list) list \<Rightarrow> error + string"
  get_key_statistic :: "(string \<times> (string \<times> real) list) list \<Rightarrow> error + string"
  get_stat_type :: "(string \<times> (string \<times> real) list) list \<Rightarrow> error + string"
  analyze_statistic :: "(string \<times> (string \<times> real) list) list \<Rightarrow> error + string"

text \<open>The class as it is in the source: looking up an undefined method raises.\<close>

definition undefined_generator_methods :: generator_methods where
  "undefined_generator_methods =
     \<lparr>get_team_action = (\<lambda>_. Inl AttributeError),
      get_intensity_descriptor = (\<lambda>_. Inl AttributeError),
      get_key_statistic = (\<lambda>_. Inl AttributeError),
      get_stat_type = (\<lambda>_. Inl AttributeError),
      analyze_statistic = (\<lambda>_. Inl AttributeError)\<rparr>"

text \<open>The dictionary \<open>context\<close>, its values computed in the order written.\<close>

definition build_context :: "generator_methods \<Rightarrow> analysis \<Rightarrow> error + (string \<times> string) list" where
  "build_context ms a =
     (let mo = (case momentum a of None \<Rightarrow> [] | Some m \<Rightarrow> m);
          performance = (case performance_metrics a of None \<Rightarrow> [] | Some pm \<Rightarrow> pm)
      in case get_team_action ms a of Inl e \<Rightarrow> Inl e | Inr action \<Rightarrow>
        (case describe_momentum mo of Inl e \<Rightarrow> Inl e | Inr momentum_description \<Rightarrow>
        (case get_intensity_descriptor ms performance of Inl e \<Rightarrow> Inl e | Inr intensity \<Rightarrow>
        (case get_key_statistic ms performance of Inl e \<Rightarrow> Inl e | Inr key_stat \<Rightarrow>
        (case get_stat_type ms performance of Inl e \<Rightarrow> Inl e | Inr stat_type \<Rightarrow>
        (case analyze_statistic ms performance of Inl e \<Rightarrow> Inl e | Inr an \<Rightarrow>
           Inr [(''team'', get_leading_team a), (''action'', action),
                (''momentum_description'', momentum_description),
                (''intensity'', intensity), (''key_stat'', key_stat),
                (''stat_type'', stat_type), (''analysis'', an)]))))))"

definition fill_template :: "generator_methods \<Rightarrow> commentary_template \<Rightarrow> analysis \<Rightarrow> error + string" where
  "fill_template ms t a =
     (case build_context ms a of
        Inl e \<Rightarrow> Inl e
      | Inr ctx \<Rightarrow> format_fields ctx None (pattern t))"

definition generate_fallback_commentary :: "analysis \<Rightarrow> string" where
  "generate_fallback_commentary a =
     (let score = str_int (case an_home_score a of Some v \<Rightarrow> v | None \<Rightarrow> 0) @ ''-'' @
                  str_int (case an_away_score a of Some v \<Rightarrow> v | None \<Rightarrow> 0)
      in ''The game continues with a score of '' @ score @ ''.'')"

subsection \<open>Generation\<close>

text \<open>The pattern memory after a use: append, then drop the oldest beyond the bound.\<close>

definition remember_pattern :: "string list \<Rightarrow> string \<Rightarrow> string list" where
  "remember_pattern used p =
     (let used' = used @ [p] in if max_pattern_memory < length used' then tl used' else used')"

text \<open>
  The statements of the \<open>try\<close> block up to the rendering: an exception, no template
  selected, or the selected template with its rendered text.
\<close>

definition render :: "generator_methods \<Rightarrow> (nat \<Rightarrow> real) \<Rightarrow> generator \<Rightarrow> analysis \<Rightarrow> string
      \<Rightarrow> error + (commentary_template \<times> string) option" where
  "render ms draw self a sty =
     (case filter_templates self a sty of
        Inl e \<Rightarrow> Inl e
      | Inr relevant_templates \<Rightarrow>
         (case select_template draw relevant_templates of
            None \<Rightarrow> Inr None
          | Some selected_template \<Rightarrow>
             (case fill_template ms selected_template a of
                Inl e \<Rightarrow> Inl e
              | Inr commentary \<Rightarrow> Inr (Some (selected_template, commentary)))))"

text \<open>
  \<open>generate_commentary\<close> returns the text together with the generator object after
  the call. The \<open>except\<close> clause and the no-template branch both return the fallback
  sentence and leave the object as it was.
\<close>

definition generate_commentary :: "generator_methods \<Rightarrow> (nat \<Rightarrow> real) \<Rightarrow> generator \<Rightarrow> analysis
      \<Rightarrow> string \<Rightarrow> int \<Rightarrow> string \<times> generator" where
  "generate_commentary ms draw self a sty max_length =
     (case render ms draw self a sty of
        Inl e \<Rightarrow> (generate_fallback_commentary a, self)
      | Inr None \<Rightarrow> (generate_fallback_commentary a, self)
      | Inr (Some (selected_template, commentary)) \<Rightarrow>
          (slice_to commentary max_length,
           self\<lparr>last_used_patterns :=
                   remember_pattern (last_used_patterns self) (pattern selected_template)\<rparr>))"

text \<open>
  A sequence of calls of \<open>generate_commentary\<close> on one generator object: each call
  has its own arguments and its own random draws, and leaves the object to the next.
\<close>

record generate_call =
  call_analysis :: analysis
  call_style :: string
  call_max_length :: int
  call_draw :: "nat \<Rightarrow> real"

fun generate_sequence :: "generator_methods \<Rightarrow> generator \<Rightarrow> generate_call list \<Rightarrow> generator" where
  "generate_sequence ms self [] = self"
| "generate_sequence ms self (c # cs) =
     generate_sequence ms
       (snd (generate_commentary ms (call_draw c) self (call_analysis c) (call_style c)
               (call_max_length c))) cs"

subsection \<open>Inputs used in the examples\<close>

text \<open>The empty dictionary as an analysis.\<close>

definition empty_analysis :: analysis where
  "empty_analysis =
     \<lparr>key_moments = None, momentum = None, performance_metrics = None, game_situation = None,
      an_home_score = None, an_away_score = None, an_home_team = None, an_away_team = None\<rparr>"

text \<open>An analysis in which the home team leads 21-14 and holds the momentum.\<close>

definition sample_analysis :: analysis where
  "sample_analysis =
     \<lparr>key_moments = None, momentum = Some [(''home'', 0.8), (''away'', 0.2)],
      performance_metrics = None, game_situation = None,
      an_home_score = Some 21, an_away_score = Some 14,
      an_home_team = Some ''Lions'', an_away_team = Some ''Bears''\<rparr>"

text \<open>A snapshot: Lions 21, Bears 14, ten minutes on the clock.\<close>

definition sample_stats :: stats where
  "sample_stats =
     \<lparr>recent_events = None, recent_scores = None, home_team = Some ''Lions'',
      away_team = Some ''Bears'', possession = None, home_score = Some 21,
      away_score = Some 14, game_time = Some ''10:00'', counters = [], other_keys = []\<rparr>"

text \<open>A generator whose pattern memory is full.\<close>

definition full_generator :: generator where
  "full_generator =
     \<lparr>templates = load_templates,
      last_used_patterns = [''first'', ''second'', ''third'', ''fourth'', ''fifth'']\<rparr>"

text \<open>Random draws that are all 1.0, a value \<open>random.uniform(0.8, 1.2)\<close> can return.\<close>

definition unit_draw :: "nat \<Rightarrow> real" where
  "unit_draw i = 1"

text \<open>
  Stand-ins for the methods the two classes do not define, for the examples in which a
  template is rendered and an analysis is produced.
\<close>

definition sample_generator_methods :: generator_methods where
  "sample_generator_methods =
     \<lparr>get_team_action = (\<lambda>_. Inr ''press on''),
      get_intensity_descriptor = (\<lambda>_. Inr ''strong''),
      get_key_statistic = (\<lambda>_. Inr ''Efficiency is high.''),
      get_stat_type = (\<lambda>_. Inr ''efficiency''),
      analyze_statistic = (\<lambda>_. Inr ''steady form'')\<rparr>"

definition sample_analyzer_methods :: analyzer_methods where
  "sample_analyzer_methods =
     \<lparr>calculate_criticality = (\<lambda>_ _. Inr 0.5),
      determine_game_phase = (\<lambda>_. Inr ''mid''),
      generate_situation_context = (\<lambda>_. Inr ''A close game'')\<rparr>"


section \<open>Validation of game data (src/utils/validators.py)\<close>

text \<open>
  The raw game data is a dictionary of dynamically typed values. \<open>PBool\<close> is apart
  because \<open>bool\<close> is a subclass of \<open>int\<close>; \<open>POther c\<close> is a value of a class named
  \<open>c\<close> that is unrelated to \<open>str\<close>, \<open>int\<close> and \<open>float\<close>.
\<close>

datatype pyval = PStr string | PInt int | PFloat real | PBool bool | POther string

datatype pytype = TStr | TInt | TFloat

definition isinstance :: "pyval \<Rightarrow> pytype list \<Rightarrow> bool" where
  "isinstance v tys =
     (case v of
        PStr _ \<Rightarrow> TStr \<in> set tys
      | PInt _ \<Rightarrow> TInt \<in> set tys
      | PFloat _ \<Rightarrow> TFloat \<in> set tys
      | PBool _ \<Rightarrow> TInt \<in> set tys
      | POther _ \<Rightarrow> False)"

definition class_repr :: "string \<Rightarrow> string" where
  "class_repr c = ''<class '' @ [CHR 0x27] @ c @ [CHR 0x27] @ ''>''"

definition type_name :: "pytype \<Rightarrow> string" where
  "type_name t = (case t of TStr \<Rightarrow> ''str'' | TInt \<Rightarrow> ''int'' | TFloat \<Rightarrow> ''float'')"

definition class_of :: "pyval \<Rightarrow> string" where
  "class_of v =
     (case v of
        PStr _ \<Rightarrow> ''str'' | PInt _ \<Rightarrow> ''int'' | PFloat _ \<Rightarrow> ''float''
      | PBool _ \<Rightarrow> ''bool'' | POther c \<Rightarrow> c)"

text \<open>How an expected type prints: one class, or a tuple of two.\<close>

definition expected_repr :: "pytype list \<Rightarrow> string" where
  "expected_repr tys =
     (case tys of
        [t] \<Rightarrow> class_repr (type_name t)
      | _ \<Rightarrow> ''('' @ foldr (\<lambda>t r. class_repr (type_name t) @ (if r = [] then [] else '', '' @ r)) tys [] @ '')'')"

definition required_fields :: "(string \<times> pytype list) list" where
  "required_fields =
     [(''game_id'', [TStr]), (''timestamp'', [TStr]), (''home_team'', [TStr]),
      (''away_team'', [TStr]), (''home_score'', [TInt, TFloat]),
      (''away_score'', [TInt, TFloat]), (''period'', [TInt, TStr]), (''game_time'', [TStr])]"

fun check_fields :: "(string \<rightharpoonup> pyval) \<Rightarrow> (string \<times> pytype list) list \<Rightarrow> error + unit" where
  "check_fields data [] = Inr ()"
| "check_fields data ((field, expected_type) # rest) =
     (case data field of
        None \<Rightarrow> Inl (ValidationError (''Missing required field: '' @ field))
      | Some v \<Rightarrow>
          if \<not> isinstance v expected_type then
            Inl (ValidationError (''Invalid type for '' @ field @ '': expected '' @
                   expected_repr expected_type @ '', got '' @ class_repr (class_of v)))
          else check_fields data rest)"

text \<open>\<open>v < 0\<close> on a dynamically typed value.\<close>

definition negative :: "pyval \<Rightarrow> error + bool" where
  "negative v =
     (case v of
        PInt i \<Rightarrow> Inr (i < 0)
      | PFloat x \<Rightarrow> Inr (x < 0)
      | PBool b \<Rightarrow> Inr False
      | _ \<Rightarrow> Inl TypeError)"

text \<open>\<open>data['home_score'] < 0 or data['away_score'] < 0\<close>, the right side read only if needed.\<close>

definition scores_negative :: "(string \<rightharpoonup> pyval) \<Rightarrow> error + bool" where
  "scores_negative data =
     (case data ''home_score'' of
        None \<Rightarrow> Inl KeyError
      | Some h \<Rightarrow>
         (case negative h of
            Inl e \<Rightarrow> Inl e
          | Inr hn \<Rightarrow>
              if hn then Inr True
              else (case data ''away_score'' of
                      None \<Rightarrow> Inl KeyError
                    | Some a \<Rightarrow> negative a)))"

text \<open>
  The check of the clock. Unpacking \<open>minutes, seconds = game_time.split(':')\<close> needs
  exactly two parts; otherwise it raises a ValueError, which the function does not turn
  into a ValidationError.
\<close>

definition check_clock :: "string list \<Rightarrow> error + bool" where
  "check_clock parts =
     (case parts of
        [minutes, seconds] \<Rightarrow>
          if \<not> (isdigit minutes \<and> isdigit seconds) then
            Inl (ValidationError ''Game time must contain valid numbers'')
          else
            (case py_int seconds of
               Inl e \<Rightarrow> Inl e
             | Inr sec \<Rightarrow>
                 if 60 \<le> sec then Inl (ValidationError ''Seconds must be less than 60'')
                 else Inr True)
      | _ \<Rightarrow> Inl ValueError)"

definition check_game_time :: "pyval \<Rightarrow> error + bool" where
  "check_game_time v =
     (case v of
        PStr gt \<Rightarrow>
          if CHR '':'' \<notin> set gt then
            Inl (ValidationError ''Invalid game time format. Expected: MM:SS'')
          else check_clock (split CHR '':'' gt)
      | _ \<Rightarrow> Inl TypeError)"

text \<open>
  \<open>validate_game_data\<close>. The parameter \<open>strptime_ok\<close> stands for the library call
  \<open>datetime.strptime(s, '%Y-%m-%d %H:%M:%S')\<close>: whether it accepts the string.
\<close>

definition check_timestamp :: "(string \<Rightarrow> bool) \<Rightarrow> pyval \<Rightarrow> error + unit" where
  "check_timestamp strptime_ok v =
     (case v of
        PStr ts \<Rightarrow>
          if strptime_ok ts then Inr ()
          else Inl (ValidationError ''Invalid timestamp format. Expected: YYYY-MM-DD HH:MM:SS'')
      | _ \<Rightarrow> Inl TypeError)"

definition validate_game_data :: "(string \<Rightarrow> bool) \<Rightarrow> (string \<rightharpoonup> pyval) \<Rightarrow> error + bool" where
  "validate_game_data strptime_ok data =
     (case check_fields data required_fields of
        Inl e \<Rightarrow> Inl e
      | Inr _ \<Rightarrow>
         (case data ''timestamp'' of
            None \<Rightarrow> Inl KeyError
          | Some ts \<Rightarrow>
             (case check_timestamp strptime_ok ts of
                Inl e \<Rightarrow> Inl e
              | Inr _ \<Rightarrow>
                 (case scores_negative data of
                    Inl e \<Rightarrow> Inl e
                  | Inr neg \<Rightarrow>
                      if neg then Inl (ValidationError ''Scores cannot be negative'')
                      else (case data ''game_time'' of
                              None \<Rightarrow> Inl KeyError
                            | Some gt \<Rightarrow> check_game_time gt)))))"


section \<open>Properties of the analyzer\<close>

subsection \<open>Sorting\<close>

lemma set_insert_desc: "set (insert_desc k x xs) = insert x (set xs)"
  by (induction xs) auto

lemma sorted_insert_desc:
  "sorted_wrt (\<lambda>a b. k b \<le> k a) xs \<Longrightarrow> sorted_wrt (\<lambda>a b. k b \<le> k a) (insert_desc k x xs)"
  by (induction xs) (auto simp: set_insert_desc)

lemma sorted_sorted_reverse: "sorted_wrt (\<lambda>a b. k b \<le> k a) (sorted_reverse k xs)"
  unfolding sorted_reverse_def by (induction xs) (auto simp: sorted_insert_desc)

lemma set_sorted_reverse: "set (sorted_reverse k xs) = set xs"
  unfolding sorted_reverse_def by (induction xs) (auto simp: set_insert_desc)

lemma mset_insert_desc: "mset (insert_desc k x xs) = add_mset x (mset xs)"
  by (induction xs) auto

lemma mset_sorted_reverse: "mset (sorted_reverse k xs) = mset xs"
  unfolding sorted_reverse_def by (induction xs) (auto simp: mset_insert_desc)

text \<open>An inserted element only passes elements with a strictly larger key.\<close>

lemma filter_insert_desc:
  "filter (\<lambda>y. k y = v) (insert_desc k x xs) =
     (if k x = v then x # filter (\<lambda>y. k y = v) xs else filter (\<lambda>y. k y = v) xs)"
  by (induction xs) auto

lemma sorted_reverse_stable:
  "filter (\<lambda>y. k y = v) (sorted_reverse k xs) = filter (\<lambda>y. k y = v) xs"
  unfolding sorted_reverse_def by (induction xs) (auto simp: filter_insert_desc)

subsection \<open>Key moments\<close>

lemma make_moment_fields:
  "make_moment event imp = Inr m \<Longrightarrow> importance m = imp \<and> momentum_shift m = (0.7 < imp)"
  by (auto simp: make_moment_def split: option.splits)

lemma collect_key_moments_all:
  "collect_key_moments evs acc = Inr km \<Longrightarrow>
   \<forall>m \<in> set acc. 0.6 \<le> importance m \<and> (momentum_shift m \<longleftrightarrow> 0.7 < importance m) \<Longrightarrow>
   \<forall>m \<in> set km. 0.6 \<le> importance m \<and> (momentum_shift m \<longleftrightarrow> 0.7 < importance m)"
proof (induction evs arbitrary: acc)
  case Nil
  then show ?case by simp
next
  case (Cons event rest)
  show ?case
  proof (cases "calculate_event_importance event")
    case (Inl e)
    with Cons.prems(1) show ?thesis by simp
  next
    case (Inr imp)
    show ?thesis
    proof (cases "momentum_threshold \<le> imp")
      case False
      with Inr Cons.prems have "collect_key_moments rest acc = Inr km" by simp
      from Cons.IH [OF this Cons.prems(2)] show ?thesis .
    next
      case True
      then obtain m where m: "make_moment event imp = Inr m"
        and rest: "collect_key_moments rest (acc @ [m]) = Inr km"
        using Inr Cons.prems(1) by (cases "make_moment event imp") auto
      from make_moment_fields [OF m] True Cons.prems(2)
      have "\<forall>x \<in> set (acc @ [m]). 0.6 \<le> importance x \<and> (momentum_shift x \<longleftrightarrow> 0.7 < importance x)"
        by (auto simp: momentum_threshold_def)
      from Cons.IH [OF rest this] show ?thesis .
    qed
  qed
qed

text \<open>The list the loop builds holds the moments of the kept events, in event order.\<close>

lemma collect_key_moments_order:
  "collect_key_moments evs acc = Inr km \<Longrightarrow>
   map Inr km =
     map Inr acc @
     map (\<lambda>e. case calculate_event_importance e of Inl x \<Rightarrow> Inl x | Inr v \<Rightarrow> make_moment e v)
       (filter (\<lambda>e. case calculate_event_importance e of Inl x \<Rightarrow> False | Inr v \<Rightarrow> 0.6 \<le> v) evs)"
proof (induction evs arbitrary: acc)
  case Nil
  then show ?case by simp
next
  case (Cons event rest)
  show ?case
  proof (cases "calculate_event_importance event")
    case (Inl e)
    with Cons.prems show ?thesis by simp
  next
    case (Inr imp)
    show ?thesis
    proof (cases "momentum_threshold \<le> imp")
      case False
      with Inr Cons.prems have "collect_key_moments rest acc = Inr km" by simp
      from Cons.IH [OF this] Inr False show ?thesis
        by (simp add: momentum_threshold_def)
    next
      case True
      then obtain m where m: "make_moment event imp = Inr m"
        and rest: "collect_key_moments rest (acc @ [m]) = Inr km"
        using Inr Cons.prems by (cases "make_moment event imp") auto
      from Cons.IH [OF rest] Inr True m show ?thesis
        by (simp add: momentum_threshold_def)
    qed
  qed
qed

text \<open>
  Claim C3. Whenever \<open>_identify_key_moments\<close> returns, the returned list is in
  descending order of importance, and every moment in it has importance at least 0.6 and
  has its \<open>momentum_shift\<close> flag set exactly when its importance exceeds 0.7. The list
  is a stable rearrangement of the list \<open>km\<close> of the moments of the kept events in event
  order: it has the same moments, and the moments of any one importance appear in the
  same order in both.
\<close>

theorem identify_key_moments_sorted:
  assumes "identify_key_moments st = Inr ms"
  shows "sorted_wrt (\<lambda>a b. importance b \<le> importance a) ms
    \<and> (\<forall>m \<in> set ms. 0.6 \<le> importance m \<and> (momentum_shift m \<longleftrightarrow> 0.7 < importance m))
    \<and> (\<exists>km.
          map Inr km =
            map (\<lambda>e. case calculate_event_importance e of Inl x \<Rightarrow> Inl x | Inr v \<Rightarrow> make_moment e v)
              (filter (\<lambda>e. case calculate_event_importance e of Inl x \<Rightarrow> False | Inr v \<Rightarrow> 0.6 \<le> v)
                 (case recent_events st of None \<Rightarrow> [] | Some evs \<Rightarrow> evs))
          \<and> mset ms = mset km
          \<and> (\<forall>v. filter (\<lambda>m. importance m = v) ms = filter (\<lambda>m. importance m = v) km))"
proof -
  from assms obtain km where
    km: "collect_key_moments (case recent_events st of None \<Rightarrow> [] | Some evs \<Rightarrow> evs) [] = Inr km"
    and ms: "ms = sorted_reverse importance km"
    by (auto simp: identify_key_moments_def split: sum.splits)
  have bounds: "\<forall>m \<in> set km. 0.6 \<le> importance m \<and> (momentum_shift m \<longleftrightarrow> 0.7 < importance m)"
    using collect_key_moments_all [OF km] by simp
  have order: "map Inr km =
            map (\<lambda>e. case calculate_event_importance e of Inl x \<Rightarrow> Inl x | Inr v \<Rightarrow> make_moment e v)
              (filter (\<lambda>e. case calculate_event_importance e of Inl x \<Rightarrow> False | Inr v \<Rightarrow> 0.6 \<le> v)
                 (case recent_events st of None \<Rightarrow> [] | Some evs \<Rightarrow> evs))"
    using collect_key_moments_order [OF km] by simp
  have stable: "mset ms = mset km
      \<and> (\<forall>v. filter (\<lambda>m. importance m = v) ms = filter (\<lambda>m. importance m = v) km)"
    unfolding ms by (simp add: mset_sorted_reverse sorted_reverse_stable)
  have "sorted_wrt (\<lambda>a b. importance b \<le> importance a) ms"
    unfolding ms by (rule sorted_sorted_reverse)
  moreover have "\<forall>m \<in> set ms. 0.6 \<le> importance m \<and> (momentum_shift m \<longleftrightarrow> 0.7 < importance m)"
    using bounds unfolding ms by (simp add: set_sorted_reverse)
  ultimately show ?thesis
    using order stable by blast
qed

text \<open>
  Four events: a penalty (0.6), a timeout (0.5, dropped), a score change (0.8) and an
  unknown type with half an hour left (0.3 doubled: 0.6). The score change comes first,
  and the two moments of importance 0.6 keep their event order.
\<close>

theorem identify_key_moments_sorted_witness:
  "\<exists>ms. identify_key_moments
       (empty_stats\<lparr>recent_events := Some
          [\<lparr>ev_timestamp = Some ''10:00'', ev_type = Some ''penalty'', ev_description = Some ''Holding'',
            ev_teams = Some [''Lions''], ev_time_remaining = None\<rparr>,
           \<lparr>ev_timestamp = Some ''09:30'', ev_type = Some ''timeout'', ev_description = Some ''Time out'',
            ev_teams = Some [''Bears''], ev_time_remaining = None\<rparr>,
           \<lparr>ev_timestamp = Some ''09:00'', ev_type = Some ''Score_Change'', ev_description = Some ''Goal'',
            ev_teams = Some [''Lions''], ev_time_remaining = None\<rparr>,
           \<lparr>ev_timestamp = Some ''08:00'', ev_type = Some ''foul'', ev_description = Some ''Late foul'',
            ev_teams = Some [''Bears''], ev_time_remaining = Some 1800\<rparr>]\<rparr>) = Inr ms
     \<and> map timestamp ms = [''09:00'', ''10:00'', ''08:00'']
     \<and> map importance ms = [0.8, 0.6, 0.6]
     \<and> sorted_wrt (\<lambda>a b. importance b \<le> importance a) ms
     \<and> (\<forall>m \<in> set ms. 0.6 \<le> importance m \<and> (momentum_shift m \<longleftrightarrow> 0.7 < importance m))"
proof -
  have run: "identify_key_moments
       (empty_stats\<lparr>recent_events := Some
          [\<lparr>ev_timestamp = Some ''10:00'', ev_type = Some ''penalty'', ev_description = Some ''Holding'',
            ev_teams = Some [''Lions''], ev_time_remaining = None\<rparr>,
           \<lparr>ev_timestamp = Some ''09:30'', ev_type = Some ''timeout'', ev_description = Some ''Time out'',
            ev_teams = Some [''Bears''], ev_time_remaining = None\<rparr>,
           \<lparr>ev_timestamp = Some ''09:00'', ev_type = Some ''Score_Change'', ev_description = Some ''Goal'',
            ev_teams = Some [''Lions''], ev_time_remaining = None\<rparr>,
           \<lparr>ev_timestamp = Some ''08:00'', ev_type = Some ''foul'', ev_description = Some ''Late foul'',
            ev_teams = Some [''Bears''], ev_time_remaining = Some 1800\<rparr>]\<rparr>)
     = Inr [\<lparr>timestamp = ''09:00'', event_type = ''Score_Change'', importance = 0.8, description = ''Goal'',
             teams_involved = [''Lions''], score_change = True, momentum_shift = True\<rparr>,
            \<lparr>timestamp = ''10:00'', event_type = ''penalty'', importance = 0.6, description = ''Holding'',
             teams_involved = [''Lions''], score_change = False, momentum_shift = False\<rparr>,
            \<lparr>timestamp = ''08:00'', event_type = ''foul'', importance = 0.6, description = ''Late foul'',
             teams_involved = [''Bears''], score_change = False, momentum_shift = False\<rparr>]"
    by (simp add: identify_key_moments_def empty_stats_def calculate_event_importance_def
          significant_events_def lower_def lower_char_def make_moment_def momentum_threshold_def
          sorted_reverse_def)
  from identify_key_moments_sorted [OF run] run show ?thesis
    by simp
qed

subsection \<open>Event importance\<close>

lemma base_weight_cases:
  "(case map_of significant_events t of Some w \<Rightarrow> w | None \<Rightarrow> 0.3) =
     (if t = ''score_change'' then 0.8 else if t = ''possession_change'' then 0.4
      else if t = ''timeout'' then 0.5 else if t = ''injury'' then 0.7
      else if t = ''penalty'' then 0.6 else (0.3::real))"
  by (simp add: significant_events_def)

text \<open>
  Claim C4, as the code has it. For an event with a type, \<open>_calculate_event_importance\<close>
  returns the base weight of the lower-cased type (0.8, 0.4, 0.5, 0.7, 0.6, and 0.3 for any
  other type), multiplied by \<open>1 + min(1.0, 1.5 - seconds_remaining / 3600)\<close> when the
  event carries a seconds-remaining value, and capped at 1. The result never exceeds 1;
  it is non-negative when the seconds-remaining value is absent or at most 9000.
\<close>

theorem calculate_event_importance_value:
  assumes "ev_type e = Some ty"
  shows "\<exists>v. calculate_event_importance e = Inr v
    \<and> v = min 1 ((let t = lower ty in
                    if t = ''score_change'' then 0.8 else if t = ''possession_change'' then 0.4
                    else if t = ''timeout'' then 0.5 else if t = ''injury'' then 0.7
                    else if t = ''penalty'' then 0.6 else 0.3)
                 * (case ev_time_remaining e of
                      None \<Rightarrow> 1
                    | Some s \<Rightarrow> 1 + min 1 (1.5 - s / 3600)))
    \<and> v \<le> 1
    \<and> ((case ev_time_remaining e of None \<Rightarrow> True | Some s \<Rightarrow> s \<le> 9000) \<longrightarrow> 0 \<le> v)"
proof -
  define b :: real where "b = (case map_of significant_events (lower ty) of Some w \<Rightarrow> w | None \<Rightarrow> 0.3)"
  have b_pos: "0 \<le> b"
    unfolding b_def base_weight_cases by simp
  show ?thesis
  proof (cases "ev_time_remaining e")
    case None
    then show ?thesis
      using assms b_pos
      by (simp add: calculate_event_importance_def base_weight_cases b_def Let_def)
  next
    case (Some s)
    have eq: "calculate_event_importance e = Inr (min 1 (b * (1 + min 1 (1.5 - s / 3600))))"
      using assms Some by (simp add: calculate_event_importance_def b_def Let_def)
    have nonneg: "0 \<le> b * (1 + min 1 (1.5 - s / 3600))" if "s \<le> 9000"
    proof -
      from that have "0 \<le> 1 + min 1 (1.5 - s / 3600)" by (simp add: min_def)
      with b_pos show ?thesis by simp
    qed
    show ?thesis
      using eq Some nonneg
      by (simp add: b_def base_weight_cases Let_def)
  qed
qed

text \<open>A timeout with two hours left: 0.5 times (1 - 0.5).\<close>

theorem calculate_event_importance_value_witness:
  "\<exists>v. calculate_event_importance
          \<lparr>ev_timestamp = Some ''12:30'', ev_type = Some ''Timeout'',
           ev_description = Some ''Home timeout'', ev_teams = Some [''Lions''],
           ev_time_remaining = Some 7200\<rparr> = Inr v \<and> v = 1 / 4 \<and> 0 \<le> v \<and> v \<le> 1"
  using calculate_event_importance_value
    [of "\<lparr>ev_timestamp = Some ''12:30'', ev_type = Some ''Timeout'',
           ev_description = Some ''Home timeout'', ev_teams = Some [''Lions''],
           ev_time_remaining = Some 7200\<rparr>" "''Timeout''"]
  by (auto simp add: lower_def lower_char_def)

text \<open>
  The lower bound of claim C4 fails: a score change with three hours left has the
  multiplier \<open>1 + (1.5 - 3) = -0.5\<close> and the importance \<open>-0.4\<close>.
\<close>

theorem calculate_event_importance_negative:
  "calculate_event_importance
     \<lparr>ev_timestamp = Some ''00:10'', ev_type = Some ''score_change'',
      ev_description = Some ''Opening score'', ev_teams = Some [''Lions''],
      ev_time_remaining = Some 10800\<rparr> = Inr (- 0.4)
   \<and> (- 0.4 :: real) < 0"
  by (simp add: calculate_event_importance_def significant_events_def lower_def lower_char_def)

subsection \<open>Momentum\<close>

text \<open>
  Claim C1 says that both momentum values are non-negative for any list of recent scoring
  plays. The code starts both sides at 0.5 and moves 0.1 per scoring play, with no clamp
  before or after the division by the total: with a previous snapshot and six recent
  scoring plays that are all by the home team, \<open>_calculate_momentum\<close> returns 1.1 for
  home and -0.1 for away.
\<close>

theorem calculate_momentum_negative:
  "calculate_momentum
     \<lparr>previous_stats = Some (empty_stats\<lparr>home_team := Some ''Lions''\<rparr>)\<rparr>
     (empty_stats\<lparr>home_team := Some ''Lions'', away_team := Some ''Bears'',
        recent_scores := Some (replicate 6 \<lparr>team = Some ''Lions''\<rparr>)\<rparr>)
   = Inr [(''home'', 1.1), (''away'', - 0.1)]
   \<and> (- 0.1 :: real) < 0"
  by (simp add: calculate_momentum_def empty_stats_def possession_bonus_def py_round_def
        round_half_even_def Let_def numeral_eq_Suc)

subsection \<open>Efficiency\<close>

text \<open>
  Claim C6 says that the efficiency computation never divides by zero. The default 1
  is used only when the attempts key is absent: for a snapshot that records zero
  attempts and zero successes for the home team, \<open>_calculate_efficiency\<close> divides by
  zero and raises.
\<close>

theorem calculate_efficiency_zero_attempts:
  "calculate_efficiency
     (empty_stats\<lparr>counters := [(''home_attempts'', 0), (''home_successes'', 0)]\<rparr>) ''home''
   = Inl ZeroDivisionError"
  by (simp add: calculate_efficiency_def get_counter_def empty_stats_def)

subsection \<open>Failure of an analysis\<close>

text \<open>
  Claim C5. If any of the four computations of \<open>analyze_game_state\<close> raises, the call
  raises the error of one of them and the analyzer object is as before the call; and
  whenever the call raises, \<open>previous_stats\<close> is unchanged.
\<close>

theorem analyze_failure_keeps_previous:
  "(identify_key_moments st = Inl e \<or> calculate_momentum self st = Inl e
      \<or> analyze_performance st = Inl e \<or> assess_game_situation ms st = Inl e
    \<longrightarrow> (\<exists>e'. analyze_game_state ms self st = (Inl e', self)
           \<and> (identify_key_moments st = Inl e' \<or> calculate_momentum self st = Inl e'
                \<or> analyze_performance st = Inl e' \<or> assess_game_situation ms st = Inl e')))
   \<and> (fst (analyze_game_state ms self st) = Inl e \<longrightarrow> snd (analyze_game_state ms self st) = self)"
  by (auto simp: analyze_game_state_def build_analysis_def split: sum.splits)

lemma parse_time_remaining_1000: "parse_time_remaining ''10:00'' = Inr 600"
  by (simp add: parse_time_remaining_def py_int_def strip_def
        is_space_def int_body_ok_def decimal_value_def digit_value_def Let_def)

text \<open>
  With the class as it is in the source, the situation assessment of a well-formed
  snapshot raises AttributeError, and the previous snapshot stays.
\<close>

theorem analyze_failure_keeps_previous_witness:
  "assess_game_situation undefined_analyzer_methods
     (empty_stats\<lparr>home_team := Some ''Lions'', away_team := Some ''Bears'', home_score := Some 21,
        away_score := Some 14, game_time := Some ''10:00''\<rparr>) = Inl AttributeError
   \<and> (\<exists>e'. analyze_game_state undefined_analyzer_methods
           \<lparr>previous_stats = Some (empty_stats\<lparr>home_score := Some 14\<rparr>)\<rparr>
           (empty_stats\<lparr>home_team := Some ''Lions'', away_team := Some ''Bears'',
              home_score := Some 21, away_score := Some 14, game_time := Some ''10:00''\<rparr>)
         = (Inl e', \<lparr>previous_stats = Some (empty_stats\<lparr>home_score := Some 14\<rparr>)\<rparr>))"
proof -
  have fails: "assess_game_situation undefined_analyzer_methods
     (empty_stats\<lparr>home_team := Some ''Lions'', away_team := Some ''Bears'', home_score := Some 21,
        away_score := Some 14, game_time := Some ''10:00''\<rparr>) = Inl AttributeError"
    by (simp add: assess_game_situation_def empty_stats_def parse_time_remaining_1000
          score_difference_def situation_of_def undefined_analyzer_methods_def)
  from analyze_failure_keeps_previous
    [of "empty_stats\<lparr>home_team := Some ''Lions'', away_team := Some ''Bears'', home_score := Some 21,
        away_score := Some 14, game_time := Some ''10:00''\<rparr>" AttributeError
        "\<lparr>previous_stats = Some (empty_stats\<lparr>home_score := Some 14\<rparr>)\<rparr>" undefined_analyzer_methods]
    fails
  show ?thesis by blast
qed


section \<open>Properties of the validation\<close>

lemma check_fields_update:
  "k \<notin> fst ` set fs \<Longrightarrow> check_fields (d(k \<mapsto> v)) fs = check_fields d fs"
  by (induction fs) (auto split: option.splits)

lemma check_fields_append:
  "check_fields d (xs @ ys) = (case check_fields d xs of Inl e \<Rightarrow> Inl e | Inr _ \<Rightarrow> check_fields d ys)"
  by (induction xs) (auto split: option.splits)

lemma check_fields_game_time:
  assumes "check_fields d required_fields = Inr ()"
  shows "check_fields (d(''game_time'' \<mapsto> PStr s)) required_fields = Inr ()"
proof -
  have split_fields: "required_fields = butlast required_fields @ [(''game_time'', [TStr])]"
    by (simp add: required_fields_def)
  have notin: "''game_time'' \<notin> fst ` set (butlast required_fields)"
    by (simp add: required_fields_def)
  have "check_fields d (butlast required_fields) = Inr ()"
    using assms by (subst (asm) split_fields) (auto simp: check_fields_append split: sum.splits)
  then have "check_fields (d(''game_time'' \<mapsto> PStr s)) (butlast required_fields) = Inr ()"
    using check_fields_update [OF notin] by simp
  then show ?thesis
    by (subst split_fields) (simp add: check_fields_append isinstance_def)
qed

lemma check_game_time_7500: "check_game_time (PStr ''75:00'') = Inr True"
  by (simp add: check_game_time_def check_clock_def isdigit_def digit_value_def py_int_def strip_def
        is_space_def int_body_ok_def decimal_value_def Let_def)

lemma check_game_time_1075:
  "check_game_time (PStr ''10:75'') = Inl (ValidationError ''Seconds must be less than 60'')"
  by (simp add: check_game_time_def check_clock_def isdigit_def digit_value_def py_int_def strip_def
        is_space_def int_body_ok_def decimal_value_def Let_def)

lemma parse_time_remaining_7500: "parse_time_remaining ''75:00'' = Inr 4500"
  by (simp add: parse_time_remaining_def py_int_def strip_def
        is_space_def int_body_ok_def decimal_value_def digit_value_def Let_def)

text \<open>
  Claim C8. Take any game data that passes validation and set its \<open>game_time\<close>: with
  \<open>"75:00"\<close> it still passes, and the analyzer parses that clock to 4500 seconds; with
  \<open>"10:75"\<close> validation raises the ValidationError for seconds of 60 or more.
\<close>

theorem validate_game_time_examples:
  assumes "validate_game_data strptime_ok d = Inr True"
  shows "validate_game_data strptime_ok (d(''game_time'' \<mapsto> PStr ''75:00'')) = Inr True
    \<and> parse_time_remaining ''75:00'' = Inr 4500
    \<and> validate_game_data strptime_ok (d(''game_time'' \<mapsto> PStr ''10:75''))
        = Inl (ValidationError ''Seconds must be less than 60'')"
proof -
  from assms have fields: "check_fields d required_fields = Inr ()"
    by (auto simp: validate_game_data_def split: sum.splits)
  from assms obtain ts where ts: "d ''timestamp'' = Some ts" "check_timestamp strptime_ok ts = Inr ()"
    by (auto simp: validate_game_data_def split: sum.splits option.splits)
  from assms ts fields have neg: "scores_negative d = Inr False"
    by (auto simp: validate_game_data_def split: sum.splits option.splits if_splits)
  have neg': "scores_negative (d(''game_time'' \<mapsto> v)) = scores_negative d" for v
    by (auto simp: scores_negative_def split: option.splits sum.splits)
  show ?thesis
    using check_fields_game_time [OF fields] ts neg neg'
      check_game_time_7500 check_game_time_1075 parse_time_remaining_7500
    by (simp add: validate_game_data_def)
qed

text \<open>A well-formed snapshot, with the clock set to each of the two values.\<close>

theorem validate_game_time_examples_witness:
  "validate_game_data (\<lambda>s. s = ''2024-03-09 19:30:00'')
     [''game_id'' \<mapsto> PStr ''G-17'', ''timestamp'' \<mapsto> PStr ''2024-03-09 19:30:00'',
      ''home_team'' \<mapsto> PStr ''Lions'', ''away_team'' \<mapsto> PStr ''Bears'',
      ''home_score'' \<mapsto> PInt 21, ''away_score'' \<mapsto> PInt 14, ''period'' \<mapsto> PInt 2,
      ''game_time'' \<mapsto> PStr ''75:00''] = Inr True
   \<and> validate_game_data (\<lambda>s. s = ''2024-03-09 19:30:00'')
     [''game_id'' \<mapsto> PStr ''G-17'', ''timestamp'' \<mapsto> PStr ''2024-03-09 19:30:00'',
      ''home_team'' \<mapsto> PStr ''Lions'', ''away_team'' \<mapsto> PStr ''Bears'',
      ''home_score'' \<mapsto> PInt 21, ''away_score'' \<mapsto> PInt 14, ''period'' \<mapsto> PInt 2,
      ''game_time'' \<mapsto> PStr ''10:75''] = Inl (ValidationError ''Seconds must be less than 60'')"
proof -
  have ok: "validate_game_data (\<lambda>s. s = ''2024-03-09 19:30:00'')
     [''game_id'' \<mapsto> PStr ''G-17'', ''timestamp'' \<mapsto> PStr ''2024-03-09 19:30:00'',
      ''home_team'' \<mapsto> PStr ''Lions'', ''away_team'' \<mapsto> PStr ''Bears'',
      ''home_score'' \<mapsto> PInt 21, ''away_score'' \<mapsto> PInt 14, ''period'' \<mapsto> PInt 2,
      ''game_time'' \<mapsto> PStr ''12:34''] = Inr True"
    by (simp add: validate_game_data_def required_fields_def isinstance_def check_timestamp_def
          scores_negative_def negative_def check_game_time_def check_clock_def isdigit_def
          digit_value_def py_int_def strip_def is_space_def int_body_ok_def decimal_value_def Let_def)
  from validate_game_time_examples [OF ok] show ?thesis
    by simp
qed



section \<open>Properties of the generator\<close>

subsection \<open>Leading team\<close>

text \<open>
  Claim C9. \<open>_get_leading_team\<close> returns the home team's name when the home score is
  higher, the away team's name when the away score is higher, and the home team's name
  when the scores are equal (absent scores count as 0, absent names are 'Home team' and
  'Away team'); with scores 21 and 14 and no momentum in the analysis it returns the home
  team's name.
\<close>

theorem get_leading_team_higher_score:
  "(let h = (case an_home_score a of Some v \<Rightarrow> v | None \<Rightarrow> 0);
        w = (case an_away_score a of Some v \<Rightarrow> v | None \<Rightarrow> 0);
        home_name = (case an_home_team a of Some n \<Rightarrow> n | None \<Rightarrow> ''Home team'');
        away_name = (case an_away_team a of Some n \<Rightarrow> n | None \<Rightarrow> ''Away team'')
    in (w < h \<longrightarrow> get_leading_team a = home_name)
     \<and> (h < w \<longrightarrow> get_leading_team a = away_name)
     \<and> (h = w \<longrightarrow> get_leading_team a = home_name))
   \<and> get_leading_team (a\<lparr>an_home_score := Some 21, an_away_score := Some 14, momentum := None\<rparr>)
       = (case an_home_team a of Some n \<Rightarrow> n | None \<Rightarrow> ''Home team'')"
  by (simp add: get_leading_team_def Let_def)

text \<open>Lions at home against Bears: ahead, behind and level.\<close>

theorem get_leading_team_higher_score_witness:
  "get_leading_team
     \<lparr>key_moments = Some [], momentum = None, performance_metrics = None, game_situation = None,
      an_home_score = Some 21, an_away_score = Some 14, an_home_team = Some ''Lions'',
      an_away_team = Some ''Bears''\<rparr> = ''Lions''
   \<and> get_leading_team
     \<lparr>key_moments = Some [], momentum = None, performance_metrics = None, game_situation = None,
      an_home_score = Some 14, an_away_score = Some 21, an_home_team = Some ''Lions'',
      an_away_team = Some ''Bears''\<rparr> = ''Bears''
   \<and> get_leading_team
     \<lparr>key_moments = Some [], momentum = None, performance_metrics = None, game_situation = None,
      an_home_score = Some 7, an_away_score = Some 7, an_home_team = Some ''Lions'',
      an_away_team = Some ''Bears''\<rparr> = ''Lions''"
  using get_leading_team_higher_score
     [of "\<lparr>key_moments = Some [], momentum = None, performance_metrics = None, game_situation = None,
      an_home_score = Some 21, an_away_score = Some 14, an_home_team = Some ''Lions'',
      an_away_team = Some ''Bears''\<rparr>"]
    get_leading_team_higher_score
     [of "\<lparr>key_moments = Some [], momentum = None, performance_metrics = None, game_situation = None,
      an_home_score = Some 14, an_away_score = Some 21, an_home_team = Some ''Lions'',
      an_away_team = Some ''Bears''\<rparr>"]
    get_leading_team_higher_score
     [of "\<lparr>key_moments = Some [], momentum = None, performance_metrics = None, game_situation = None,
      an_home_score = Some 7, an_away_score = Some 7, an_home_team = Some ''Lions'',
      an_away_team = Some ''Bears''\<rparr>"]
  by (simp add: Let_def)

subsection \<open>Candidates\<close>

lemma filter_loop_excludes:
  "filter_loop used a sty ts = Inr rs \<Longrightarrow> \<forall>t \<in> set rs. t \<in> set ts \<and> style t = sty \<and> pattern t \<notin> set used"
proof (induction ts arbitrary: rs)
  case Nil
  then show ?case by simp
next
  case (Cons t ts)
  then show ?case
    by (auto split: if_splits sum.splits)
qed

subsection \<open>The returned text\<close>

lemma render_empty:
  "render undefined_generator_methods unit_draw init_generator empty_analysis ''neutral'' = Inl ValueError"
  by (simp add: render_def filter_templates_def init_generator_def load_templates_def
        check_condition_def empty_analysis_def)

text \<open>
  Claim C2 says that the returned text has at most \<open>max_length\<close> characters, also on
  the fallback path. Only the template path cuts its text by \<open>[:max_length]\<close>; the two
  \<open>return\<close> statements of the fallback do not. For the empty analysis, style neutral and
  \<open>max_length = 10\<close>, the condition check takes the maximum of no momentum values and
  raises, the exception is caught, and \<open>generate_commentary\<close> returns the whole fallback
  sentence of 39 characters.
\<close>

theorem generate_commentary_fallback_too_long:
  "fst (generate_commentary undefined_generator_methods unit_draw init_generator empty_analysis ''neutral'' 10)
     = ''The game continues with a score of 0-0.''
   \<and> (10 :: int) < int (length ''The game continues with a score of 0-0.'')"
proof -
  have "fst (generate_commentary undefined_generator_methods unit_draw init_generator empty_analysis ''neutral'' 10)
          = generate_fallback_commentary empty_analysis"
    by (simp add: generate_commentary_def render_empty)
  moreover have "generate_fallback_commentary empty_analysis = ''The game continues with a score of 0-0.''"
    by (simp add: generate_fallback_commentary_def empty_analysis_def str_int_def)
  ultimately show ?thesis by simp
qed

subsection \<open>The pattern memory\<close>

lemma remember_pattern_length:
  "length used \<le> max_pattern_memory \<Longrightarrow> length (remember_pattern used p) \<le> max_pattern_memory"
  by (simp add: remember_pattern_def Let_def)

lemma remember_pattern_fifo:
  "length used \<le> max_pattern_memory \<Longrightarrow>
   remember_pattern used p = (if length used < max_pattern_memory then used @ [p] else tl used @ [p])"
  by (cases used) (auto simp: remember_pattern_def Let_def max_pattern_memory_def)

lemma generate_commentary_memory:
  "last_used_patterns (snd (generate_commentary ms draw g a sty n)) =
     (case render ms draw g a sty of
        Inr (Some (t, c)) \<Rightarrow> remember_pattern (last_used_patterns g) (pattern t)
      | _ \<Rightarrow> last_used_patterns g)"
  by (simp add: generate_commentary_def split: sum.splits option.splits)

lemma generate_commentary_templates:
  "templates (snd (generate_commentary ms draw g a sty n)) = templates g"
  by (simp add: generate_commentary_def split: sum.splits option.splits)

lemma generate_sequence_length:
  "length (last_used_patterns g) \<le> max_pattern_memory \<Longrightarrow>
   length (last_used_patterns (generate_sequence ms g calls)) \<le> max_pattern_memory"
proof (induction calls arbitrary: g)
  case Nil
  then show ?case by simp
next
  case (Cons c cs)
  have "length (last_used_patterns (snd (generate_commentary ms (call_draw c) g (call_analysis c)
          (call_style c) (call_max_length c)))) \<le> max_pattern_memory"
    using Cons.prems
    by (auto simp: generate_commentary_memory remember_pattern_length split: sum.splits option.splits)
  from Cons.IH [OF this] show ?case by simp
qed

text \<open>
  A pattern among the last \<open>j\<close> entries of the memory is among the last \<open>j + 1\<close>
  entries after one more use, as long as \<open>j\<close> is below the bound.
\<close>

lemma remember_pattern_recent:
  assumes "p \<in> set (drop (length used - j) used)" and "j < max_pattern_memory"
  shows "p \<in> set (drop (length (remember_pattern used q) - Suc j) (remember_pattern used q))"
proof -
  have app: "p \<in> set (drop (length (used @ [q]) - Suc j) (used @ [q]))"
    using assms(1) by simp
  show ?thesis
  proof (cases "max_pattern_memory < length (used @ [q])")
    case False
    with app show ?thesis by (simp add: remember_pattern_def Let_def)
  next
    case True
    with assms(2) have "Suc (length used - Suc j) = length used - j"
      by simp
    then have "drop (length (tl (used @ [q])) - Suc j) (tl (used @ [q]))
                 = drop (length (used @ [q]) - Suc j) (used @ [q])"
      by (simp add: drop_Suc [symmetric] tl_drop del: tl_append2)
    with app True show ?thesis by (simp add: remember_pattern_def Let_def)
  qed
qed

lemma generate_commentary_recent:
  assumes "p \<in> set (drop (length (last_used_patterns g) - j) (last_used_patterns g))"
    and "j < max_pattern_memory"
  shows "p \<in> set (drop (length (last_used_patterns (snd (generate_commentary ms draw g a sty n))) - Suc j)
                   (last_used_patterns (snd (generate_commentary ms draw g a sty n))))"
proof (cases "\<exists>t c. render ms draw g a sty = Inr (Some (t, c))")
  case True
  then obtain t c where "render ms draw g a sty = Inr (Some (t, c))" by blast
  then show ?thesis
    using remember_pattern_recent [OF assms] by (simp add: generate_commentary_memory)
next
  case False
  then have same: "last_used_patterns (snd (generate_commentary ms draw g a sty n)) = last_used_patterns g"
    by (auto simp: generate_commentary_memory split: sum.splits option.splits)
  have "set (drop (length (last_used_patterns g) - j) (last_used_patterns g))
          \<subseteq> set (drop (length (last_used_patterns g) - Suc j) (last_used_patterns g))"
    by (rule set_drop_subset_set_drop) simp
  with assms(1) same show ?thesis by auto
qed

lemma generate_sequence_recent:
  "p \<in> set (drop (length (last_used_patterns g) - j) (last_used_patterns g)) \<Longrightarrow>
   j + length calls \<le> max_pattern_memory \<Longrightarrow>
   p \<in> set (last_used_patterns (generate_sequence ms g calls))"
proof (induction calls arbitrary: g j)
  case Nil
  then show ?case by (auto dest: in_set_dropD)
next
  case (Cons c cs)
  from Cons.prems(2) have j: "j < max_pattern_memory" and rest: "Suc j + length cs \<le> max_pattern_memory"
    by simp_all
  from Cons.IH [OF generate_commentary_recent [OF Cons.prems(1) j] rest]
  show ?case by simp
qed

lemma remember_pattern_last:
  "p \<in> set (drop (length (remember_pattern used p) - Suc 0) (remember_pattern used p))"
  by (cases used) (auto simp: remember_pattern_def Let_def max_pattern_memory_def)

text \<open>
  Claim C7. Take a generator, with any catalogue, whose pattern memory has at most 5
  entries (a new generator has none). After any sequence of calls of
  \<open>generate_commentary\<close> the memory still has at most 5 entries. In one call: if a
  template is selected and rendered, its pattern is appended and, when the memory was
  full, the oldest entry is dropped; and after that call and up to four further calls,
  whatever they are, the pattern is in no candidate list that \<open>_filter_templates\<close>
  returns, so it is excluded in the five generations that follow its use. If the call
  returns the fallback sentence, the generator is unchanged.
\<close>

theorem pattern_memory_bounded:
  assumes "length (last_used_patterns g) \<le> 5"
  shows "length (last_used_patterns (generate_sequence ms g calls)) \<le> 5
   \<and> length (last_used_patterns (generate_sequence ms init_generator calls)) \<le> 5
   \<and> (let g' = snd (generate_commentary ms draw g a sty n)
       in (\<forall>t c. render ms draw g a sty = Inr (Some (t, c)) \<longrightarrow>
             last_used_patterns g' =
               (if length (last_used_patterns g) < 5 then last_used_patterns g @ [pattern t]
                else tl (last_used_patterns g) @ [pattern t])
           \<and> (\<forall>later a' sty' ts. length later < 5 \<longrightarrow>
                 filter_templates (generate_sequence ms g' later) a' sty' = Inr ts \<longrightarrow>
                 pattern t \<notin> pattern ` set ts))
        \<and> ((\<forall>t c. render ms draw g a sty \<noteq> Inr (Some (t, c))) \<longrightarrow> g' = g))"
proof -
  define g' where "g' = snd (generate_commentary ms draw g a sty n)"
  have len: "length (last_used_patterns g) \<le> max_pattern_memory"
    using assms by (simp add: max_pattern_memory_def)
  have seq: "length (last_used_patterns (generate_sequence ms g calls)) \<le> 5"
    using generate_sequence_length [OF len] by (simp add: max_pattern_memory_def)
  have "length (last_used_patterns init_generator) \<le> max_pattern_memory"
    by (simp add: init_generator_def)
  from generate_sequence_length [OF this]
  have new: "length (last_used_patterns (generate_sequence ms init_generator calls)) \<le> 5"
    by (simp add: max_pattern_memory_def)
  have success: "last_used_patterns g' =
               (if length (last_used_patterns g) < 5 then last_used_patterns g @ [pattern t]
                else tl (last_used_patterns g) @ [pattern t])
           \<and> (\<forall>later a' sty' ts. length later < 5 \<longrightarrow>
                 filter_templates (generate_sequence ms g' later) a' sty' = Inr ts \<longrightarrow>
                 pattern t \<notin> pattern ` set ts)"
    if r: "render ms draw g a sty = Inr (Some (t, c))" for t c
  proof -
    have mem: "last_used_patterns g' = remember_pattern (last_used_patterns g) (pattern t)"
      unfolding g'_def using r by (simp add: generate_commentary_memory)
    have fifo: "last_used_patterns g' =
               (if length (last_used_patterns g) < 5 then last_used_patterns g @ [pattern t]
                else tl (last_used_patterns g) @ [pattern t])"
      using remember_pattern_fifo [OF len] mem by (simp add: max_pattern_memory_def)
    have recent: "pattern t \<in> set (drop (length (last_used_patterns g') - Suc 0) (last_used_patterns g'))"
      unfolding mem by (rule remember_pattern_last)
    have "pattern t \<notin> pattern ` set ts"
      if "length later < 5" and f: "filter_templates (generate_sequence ms g' later) a' sty' = Inr ts"
      for later a' sty' ts
    proof -
      from that(1) have "Suc 0 + length later \<le> max_pattern_memory"
        by (simp add: max_pattern_memory_def)
      from generate_sequence_recent [OF recent this]
      have "pattern t \<in> set (last_used_patterns (generate_sequence ms g' later))" .
      with filter_loop_excludes [OF f [unfolded filter_templates_def]] show ?thesis
        by auto
    qed
    with fifo show ?thesis by blast
  qed
  have fallback: "g' = g" if "\<forall>t c. render ms draw g a sty \<noteq> Inr (Some (t, c))"
    unfolding g'_def using that
    by (auto simp: generate_commentary_def split: sum.splits option.splits)
  show ?thesis
    using seq new success fallback
    unfolding Let_def g'_def [symmetric]
    by simp
qed

text \<open>
  A generator with a full memory: the neutral template is used, the oldest entry
  \<open>first\<close> is dropped and the pattern is appended; the pattern is no candidate after one
  more call; and a call that falls back leaves the generator as it was.
\<close>

lemma render_full:
  "render sample_generator_methods unit_draw full_generator sample_analysis ''neutral''
   = Inr (Some (\<lparr>pattern = ''{team} {action} as they {momentum_description}'',
                  conditions = [(''momentum'', 0.7)], style = ''neutral'', priority = 1\<rparr>,
                ''Lions press on as they maintain control''))"
  by (simp add: render_def filter_templates_def full_generator_def load_templates_def
        check_condition_def sample_analysis_def select_template_def weighted_templates_def
        enumerate_eq_zip unit_draw_def fill_template_def build_context_def
        sample_generator_methods_def describe_momentum_def get_leading_team_def Let_def)

lemma render_fails_on_empty:
  "render ms unit_draw \<lparr>templates = load_templates, last_used_patterns = used\<rparr> empty_analysis ''neutral''
     = Inl ValueError"
  by (simp add: render_def filter_templates_def load_templates_def
        check_condition_def empty_analysis_def)

theorem pattern_memory_bounded_witness:
  "last_used_patterns (snd (generate_commentary sample_generator_methods unit_draw full_generator
       sample_analysis ''neutral'' 150))
     = [''second'', ''third'', ''fourth'', ''fifth'', ''{team} {action} as they {momentum_description}'']
   \<and> length (last_used_patterns (generate_sequence sample_generator_methods full_generator
         [\<lparr>call_analysis = sample_analysis, call_style = ''neutral'', call_max_length = 150,
           call_draw = unit_draw\<rparr>])) \<le> 5
   \<and> filter_templates
        (generate_sequence sample_generator_methods
           (snd (generate_commentary sample_generator_methods unit_draw full_generator
                   sample_analysis ''neutral'' 150))
           [\<lparr>call_analysis = empty_analysis, call_style = ''neutral'', call_max_length = 150,
             call_draw = unit_draw\<rparr>])
        sample_analysis ''neutral'' = Inr []
   \<and> snd (generate_commentary sample_generator_methods unit_draw full_generator empty_analysis
          ''neutral'' 150) = full_generator"
proof -
  have full: "length (last_used_patterns full_generator) \<le> 5"
    by (simp add: full_generator_def)
  note first = pattern_memory_bounded [OF full,
      where ms = sample_generator_methods and draw = unit_draw and a = sample_analysis
        and sty = "''neutral''" and n = 150
        and calls = "[\<lparr>call_analysis = sample_analysis, call_style = ''neutral'',
                       call_max_length = 150, call_draw = unit_draw\<rparr>]",
      unfolded Let_def]
  from first have bound: "length (last_used_patterns (generate_sequence sample_generator_methods
      full_generator [\<lparr>call_analysis = sample_analysis, call_style = ''neutral'',
         call_max_length = 150, call_draw = unit_draw\<rparr>])) \<le> 5"
    by blast
  from first render_full
  have mem: "last_used_patterns (snd (generate_commentary sample_generator_methods unit_draw
      full_generator sample_analysis ''neutral'' 150))
     = (if length (last_used_patterns full_generator) < 5
        then last_used_patterns full_generator @ [pattern \<lparr>pattern = ''{team} {action} as they {momentum_description}'',
                  conditions = [(''momentum'', 0.7)], style = ''neutral'', priority = 1\<rparr>]
        else tl (last_used_patterns full_generator) @ [pattern \<lparr>pattern = ''{team} {action} as they {momentum_description}'',
                  conditions = [(''momentum'', 0.7)], style = ''neutral'', priority = 1\<rparr>])"
    by blast
  have g1: "snd (generate_commentary sample_generator_methods unit_draw full_generator
      sample_analysis ''neutral'' 150)
     = \<lparr>templates = load_templates,
        last_used_patterns = [''second'', ''third'', ''fourth'', ''fifth'',
                              ''{team} {action} as they {momentum_description}'']\<rparr>"
    unfolding generate_commentary_def render_full
    by (simp add: full_generator_def remember_pattern_def max_pattern_memory_def)
  have f: "filter_templates
        \<lparr>templates = load_templates,
        last_used_patterns = [''second'', ''third'', ''fourth'', ''fifth'',
                              ''{team} {action} as they {momentum_description}'']\<rparr>
        sample_analysis ''neutral'' = Inr []"
    by (simp add: filter_templates_def load_templates_def check_condition_def sample_analysis_def)
  have none: "\<forall>t c. render sample_generator_methods unit_draw full_generator empty_analysis
      ''neutral'' \<noteq> Inr (Some (t, c))"
    by (simp add: full_generator_def render_fails_on_empty)
  from pattern_memory_bounded [OF full,
      where ms = sample_generator_methods and draw = unit_draw and a = empty_analysis
        and sty = "''neutral''" and n = 150 and calls = "[]", unfolded Let_def] none
  have same: "snd (generate_commentary sample_generator_methods unit_draw full_generator
      empty_analysis ''neutral'' 150) = full_generator"
    by blast
  have seq: "generate_sequence sample_generator_methods
           \<lparr>templates = load_templates,
        last_used_patterns = [''second'', ''third'', ''fourth'', ''fifth'',
                              ''{team} {action} as they {momentum_description}'']\<rparr>
           [\<lparr>call_analysis = empty_analysis, call_style = ''neutral'', call_max_length = 150,
             call_draw = unit_draw\<rparr>]
       = \<lparr>templates = load_templates,
        last_used_patterns = [''second'', ''third'', ''fourth'', ''fifth'',
                              ''{team} {action} as they {momentum_description}'']\<rparr>"
    by (simp add: generate_commentary_def render_fails_on_empty)
  from mem bound same show ?thesis
    unfolding g1 seq f by (simp add: full_generator_def)
qed

subsection \<open>The fallback sentence for the analyzer's output\<close>

text \<open>
  Claim C10. Every analysis that \<open>analyze_game_state\<close> returns has exactly the keys
  \<open>key_moments\<close>, \<open>momentum\<close>, \<open>performance_metrics\<close> and \<open>game_situation\<close>; the
  fallback sentence for it is "The game continues with a score of 0-0." whatever the
  scores of the snapshot, and that is the text \<open>generate_commentary\<close> returns for it
  whenever no template is rendered.
\<close>

theorem analyzer_output_fallback_score:
  assumes "analyze_game_state ms self st = (Inr a, self')"
  shows "set (analysis_keys a) = {''key_moments'', ''momentum'', ''performance_metrics'', ''game_situation''}
    \<and> generate_fallback_commentary a = ''The game continues with a score of 0-0.''
    \<and> ((\<forall>t c. render gm draw g a sty \<noteq> Inr (Some (t, c)))
         \<longrightarrow> fst (generate_commentary gm draw g a sty n) = ''The game continues with a score of 0-0.'')"
proof -
  from assms obtain km mo pm gs where a:
    "a = \<lparr>key_moments = Some km, momentum = Some mo, performance_metrics = Some pm,
          game_situation = Some gs, an_home_score = None, an_away_score = None,
          an_home_team = None, an_away_team = None\<rparr>"
    by (auto simp: analyze_game_state_def build_analysis_def split: sum.splits)
  have keys: "set (analysis_keys a) = {''key_moments'', ''momentum'', ''performance_metrics'', ''game_situation''}"
    unfolding a by (simp add: analysis_keys_def) 
  have fb: "generate_fallback_commentary a = ''The game continues with a score of 0-0.''"
    unfolding a by (simp add: generate_fallback_commentary_def str_int_def)
  have "fst (generate_commentary gm draw g a sty n) = generate_fallback_commentary a"
    if "\<forall>t c. render gm draw g a sty \<noteq> Inr (Some (t, c))"
    using that by (auto simp: generate_commentary_def split: sum.splits option.splits)
  with keys fb show ?thesis by simp
qed

text \<open>A snapshot with the score 21-14: the analysis has no score, the sentence says 0-0.\<close>

lemma analyze_sample:
  "analyze_game_state sample_analyzer_methods \<lparr>previous_stats = None\<rparr> sample_stats
   = (Inr \<lparr>key_moments = Some [], momentum = Some [(''home'', 0.5), (''away'', 0.5)],
          performance_metrics = Some
            [(''home'', [(''efficiency'', 0), (''pressure'', 0), (''defense'', 0)]),
             (''away'', [(''efficiency'', 0), (''pressure'', 0), (''defense'', 0)])],
          game_situation = Some \<lparr>criticality = 0.5, phase = ''mid'', situation_context = ''A close game''\<rparr>,
          an_home_score = None, an_away_score = None, an_home_team = None, an_away_team = None\<rparr>,
      \<lparr>previous_stats = Some sample_stats\<rparr>)"
proof -
  have parts: "identify_key_moments sample_stats = Inr []"
    "calculate_momentum \<lparr>previous_stats = None\<rparr> sample_stats = Inr [(''home'', 0.5), (''away'', 0.5)]"
    "analyze_performance sample_stats = Inr
            [(''home'', [(''efficiency'', 0), (''pressure'', 0), (''defense'', 0)]),
             (''away'', [(''efficiency'', 0), (''pressure'', 0), (''defense'', 0)])]"
    "assess_game_situation sample_analyzer_methods sample_stats
       = Inr \<lparr>criticality = 0.5, phase = ''mid'', situation_context = ''A close game''\<rparr>"
    by (simp_all add: identify_key_moments_def sorted_reverse_def
        calculate_momentum_def analyze_performance_def team_performance_def calculate_efficiency_def
        calculate_pressure_def calculate_defense_def get_counter_def py_round_def round_half_even_def
        assess_game_situation_def parse_time_remaining_1000 score_difference_def situation_of_def
        sample_analyzer_methods_def sample_stats_def)
  show ?thesis
    unfolding analyze_game_state_def build_analysis_def parts by simp
qed

theorem analyzer_output_fallback_score_witness:
  "\<exists>a self'. analyze_game_state sample_analyzer_methods \<lparr>previous_stats = None\<rparr> sample_stats
       = (Inr a, self')
    \<and> set (analysis_keys a) = {''key_moments'', ''momentum'', ''performance_metrics'', ''game_situation''}
    \<and> generate_fallback_commentary a = ''The game continues with a score of 0-0.''
    \<and> fst (generate_commentary undefined_generator_methods unit_draw init_generator a ''neutral'' 150)
        = ''The game continues with a score of 0-0.''"
proof -
  let ?a = "\<lparr>key_moments = Some [], momentum = Some [(''home'', 0.5), (''away'', 0.5)],
          performance_metrics = Some
            [(''home'', [(''efficiency'', 0), (''pressure'', 0), (''defense'', 0)]),
             (''away'', [(''efficiency'', 0), (''pressure'', 0), (''defense'', 0)])],
          game_situation = Some \<lparr>criticality = 0.5, phase = ''mid'', situation_context = ''A close game''\<rparr>,
          an_home_score = None, an_away_score = None, an_home_team = None, an_away_team = None\<rparr>"
  have none: "\<forall>t c. render undefined_generator_methods unit_draw init_generator ?a ''neutral''
       \<noteq> Inr (Some (t, c))"
    by (simp add: render_def filter_templates_def init_generator_def load_templates_def
        check_condition_def select_template_def weighted_templates_def)
  from analyzer_output_fallback_score [OF analyze_sample,
      of undefined_generator_methods unit_draw init_generator "''neutral''" 150] none
  have "set (analysis_keys ?a) = {''key_moments'', ''momentum'', ''performance_metrics'', ''game_situation''}
    \<and> generate_fallback_commentary ?a = ''The game continues with a score of 0-0.''
    \<and> fst (generate_commentary undefined_generator_methods unit_draw init_generator ?a ''neutral'' 150)
        = ''The game continues with a score of 0-0.''"
    by blast
  with analyze_sample show ?thesis
    by blast
qed

end
